theory Spec2Isabelle
  imports Main
begin

section \<open>Data model (src/models/Habit.ts)\<close>

text \<open>
  Representation choices.

  \<^item> A calendar date string \<open>YYYY-MM-DD\<close> is represented by its day number, the number of
    days since 1970-01-01 (\<open>ymd\<close> below computes it, so that examples can be written with
    year, month and day). On zero-padded fixed-width dates, string equality is equality of
    day numbers and \<open>localeCompare\<close> is the order of day numbers.
  \<^item> A JavaScript \<open>Date\<close> object is used by the streak engine only through
    \<open>formatDate\<close>, \<open>setDate(getDate() - 1)\<close> and \<open>getDay()\<close>; it is represented by
    its day number as well, the clock's calendar day being taken the same in UTC and in
    local time. Day numbers are unbounded integers: the limit of a \<open>Date\<close> (about 10^8
    days around 1970, beyond which \<open>toISOString\<close> throws) is not modelled, so a walk that
    leaves every log behind and never breaks is a walk that does not return.
  \<^item> Optional fields are \<open>option\<close> values, \<open>undefined\<close> being \<open>None\<close>. Time stamps and
    generated identifiers come from the environment and are parameters of the operations
    that read them.
  \<^item> \<open>save()\<close> hands the snapshot to the host; it does not change the in-memory snapshot
    and is taken to succeed, except in \<open>importData\<close>, whose \<open>try\<close> block catches a
    rejection: there the outcome of the save is a parameter.
\<close>

datatype HabitFrequency = Daily | Weekly | Custom

datatype BadgeType = Week | Month | Century | Year

record Category =
  c_id :: string
  c_name :: string
  c_color :: string
  c_emoji :: "string option"
  c_order :: int

record Habit =
  h_id :: string
  h_name :: string
  h_description :: "string option"
  h_emoji :: "string option"
  frequency :: HabitFrequency
  customDays :: "nat list option"
  categoryId :: "string option"
  goalDays :: "nat option"
  h_createdAt :: string
  archived :: bool
  h_order :: int

record HabitLog =
  date :: int
  habitId :: string
  completed :: bool
  note_l :: "string option"
  completedAt :: "string option"

record FreezeDay =
  f_date :: int
  f_reason :: "string option"

record Badge =
  b_id :: string
  b_habitId :: string
  b_type :: BadgeType
  b_earnedAt :: string

record HabitData =
  habits :: "Habit list"
  logs :: "HabitLog list"
  categories :: "Category list"
  freezeDays :: "FreezeDay list"
  badges :: "Badge list"
  version :: int

text \<open>The value that \<open>DEFAULT_HABIT_DATA\<close> is declared with: the empty snapshot.\<close>

definition DEFAULT_HABIT_DATA :: HabitData where
  "DEFAULT_HABIT_DATA =
     \<lparr>habits = [], logs = [], categories = [], freezeDays = [], badges = [], version = 2\<rparr>"

text \<open>The milestone table; the emoji of each entry is presentation only and left out.\<close>

record Milestone =
  m_type :: BadgeType
  m_days :: nat
  m_label :: string

definition BADGE_MILESTONES :: "Milestone list" where
  "BADGE_MILESTONES =
     [\<lparr>m_type = Week, m_days = 7, m_label = ''First Week''\<rparr>,
      \<lparr>m_type = Month, m_days = 30, m_label = ''Monthly Master''\<rparr>,
      \<lparr>m_type = Century, m_days = 100, m_label = ''Century Club''\<rparr>,
      \<lparr>m_type = Year, m_days = 365, m_label = ''Year Champion''\<rparr>]"

text \<open>Day number of the civil date \<open>y-m-d\<close> (proleptic Gregorian calendar), for examples.\<close>

definition ymd :: "int \<Rightarrow> int \<Rightarrow> int \<Rightarrow> int" where
  "ymd y m d =
     (let y' = (if m \<le> 2 then y - 1 else y);
          era = y' div 400;
          yoe = y' - era * 400;
          mp = (m + 9) mod 12;
          doy = (153 * mp + 2) div 5 + d - 1;
          doe = yoe * 365 + yoe div 4 - yoe div 100 + doy
      in era * 146097 + doe - 719468)"

text \<open>\<open>formatDate(date)\<close>: the date string of a \<open>Date\<close>, here its day number.\<close>

definition formatDate :: "int \<Rightarrow> int" where
  "formatDate d = d"

text \<open>\<open>date.getDay()\<close>: 0 is Sunday; 1970-01-01 was a Thursday.\<close>

definition getDay :: "int \<Rightarrow> nat" where
  "getDay d = nat ((d + 4) mod 7)"

text \<open>\<open>new Date(dateString).getTime()\<close>: milliseconds of midnight UTC of that date.\<close>

definition getTime :: "int \<Rightarrow> int" where
  "getTime d = d * (1000 * 60 * 60 * 24)"

definition createHabitLog :: "string \<Rightarrow> string \<Rightarrow> int \<Rightarrow> bool \<Rightarrow> string option \<Rightarrow> HabitLog" where
  "createHabitLog now hId d c n =
     \<lparr>date = d, habitId = hId, completed = c, note_l = n,
      completedAt = (if c then Some now else None)\<rparr>"

definition isHabitDueOnDate :: "Habit \<Rightarrow> int \<Rightarrow> bool" where
  "isHabitDueOnDate habit d =
     (let dayOfWeek = getDay d in
      case frequency habit of
        Daily \<Rightarrow> True
      | Weekly \<Rightarrow> (case customDays habit of
                     Some cd \<Rightarrow> dayOfWeek \<in> set cd
                   | None \<Rightarrow> dayOfWeek = 0)
      | Custom \<Rightarrow> (case customDays habit of
                     Some cd \<Rightarrow> dayOfWeek \<in> set cd
                   | None \<Rightarrow> False))"

definition createFreezeDay :: "int \<Rightarrow> string option \<Rightarrow> FreezeDay" where
  "createFreezeDay d r = \<lparr>f_date = d, f_reason = r\<rparr>"

definition createBadge :: "string \<Rightarrow> string \<Rightarrow> string \<Rightarrow> BadgeType \<Rightarrow> Badge" where
  "createBadge newId now hId t = \<lparr>b_id = newId, b_habitId = hId, b_type = t, b_earnedAt = now\<rparr>"

definition isFrozenDate :: "int \<Rightarrow> FreezeDay list \<Rightarrow> bool" where
  "isFrozenDate d fz = list_ex (\<lambda>f. f_date f = d) fz"

section \<open>DataService: habits and the log ledger\<close>

definition getHabit :: "HabitData \<Rightarrow> string \<Rightarrow> Habit option" where
  "getHabit data hId = find (\<lambda>h. h_id h = hId) (habits data)"

text \<open>
  \<open>getLogs(habitId?, startDate?, endDate?)\<close>. A filter runs when its argument is truthy:
  an absent or empty habit id filters nothing. The result is sorted by date,
  latest first; the sort of the platform is stable.
\<close>

definition truthyId :: "string option \<Rightarrow> bool" where
  "truthyId s = (case s of None \<Rightarrow> False | Some x \<Rightarrow> x \<noteq> [])"

definition sortDesc :: "HabitLog list \<Rightarrow> HabitLog list" where
  "sortDesc ls = sort_key (\<lambda>l. - date l) ls"

definition getLogs :: "HabitData \<Rightarrow> string option \<Rightarrow> int option \<Rightarrow> int option \<Rightarrow> HabitLog list" where
  "getLogs data hId startDate endDate =
     (let ls = logs data;
          ls = (if truthyId hId then filter (\<lambda>l. Some (habitId l) = hId) ls else ls);
          ls = (case startDate of Some s \<Rightarrow> filter (\<lambda>l. date l \<ge> s) ls | None \<Rightarrow> ls);
          ls = (case endDate of Some e \<Rightarrow> filter (\<lambda>l. date l \<le> e) ls | None \<Rightarrow> ls)
      in sortDesc ls)"

text \<open>
  \<open>Array.prototype.sort\<close> sorts in place: when no filter ran, the array sorted by
  \<open>getLogs\<close> is the snapshot's own. This is the snapshot after a call.
\<close>

definition getLogs_snapshot :: "HabitData \<Rightarrow> string option \<Rightarrow> int option \<Rightarrow> int option \<Rightarrow> HabitData" where
  "getLogs_snapshot data hId startDate endDate =
     (if \<not> truthyId hId \<and> startDate = None \<and> endDate = None
      then data\<lparr>logs := sortDesc (logs data)\<rparr> else data)"

definition getLog :: "HabitData \<Rightarrow> string \<Rightarrow> int \<Rightarrow> HabitLog option" where
  "getLog data hId d = find (\<lambda>l. habitId l = hId \<and> date l = d) (logs data)"

text \<open>
  The log returned by \<open>getLog\<close> is the object held in the array, so an assignment to one
  of its fields changes the first matching element of \<open>logs\<close>.
\<close>

fun updateFirst :: "('a \<Rightarrow> bool) \<Rightarrow> ('a \<Rightarrow> 'a) \<Rightarrow> 'a list \<Rightarrow> 'a list" where
  "updateFirst p f [] = []"
| "updateFirst p f (x # xs) = (if p x then f x # xs else x # updateFirst p f xs)"

text \<open>
  \<open>toggleHabit(habitId, date?)\<close>; \<open>today\<close> is the clock's day and \<open>now\<close> its ISO time
  stamp. An omitted date is \<open>None\<close> (the empty string, which the source treats as
  omitted too, is not a date). Returns the snapshot and the log.
\<close>

definition toggleHabit :: "HabitData \<Rightarrow> int \<Rightarrow> string \<Rightarrow> string \<Rightarrow> int option \<Rightarrow> HabitData \<times> HabitLog" where
  "toggleHabit data today now hId d =
     (let targetDate = (case d of Some x \<Rightarrow> x | None \<Rightarrow> formatDate today) in
      case getLog data hId targetDate of
        Some existingLog \<Rightarrow>
          (let c = \<not> completed existingLog;
               log' = existingLog\<lparr>completed := c,
                                   completedAt := (if c then Some now else None)\<rparr>
           in (data\<lparr>logs := updateFirst (\<lambda>l. habitId l = hId \<and> date l = targetDate)
                                          (\<lambda>_. log') (logs data)\<rparr>, log'))
      | None \<Rightarrow>
          (let newLog = createHabitLog now hId targetDate True None
           in (data\<lparr>logs := logs data @ [newLog]\<rparr>, newLog)))"

definition setHabitCompletion ::
  "HabitData \<Rightarrow> string \<Rightarrow> string \<Rightarrow> int \<Rightarrow> bool \<Rightarrow> string option \<Rightarrow> HabitData \<times> HabitLog" where
  "setHabitCompletion data now hId d c n =
     (case getLog data hId d of
        Some existingLog \<Rightarrow>
          (let log' = existingLog\<lparr>completed := c, note_l := n,
                                   completedAt := (if c then Some now else None)\<rparr>
           in (data\<lparr>logs := updateFirst (\<lambda>l. habitId l = hId \<and> date l = d)
                                          (\<lambda>_. log') (logs data)\<rparr>, log'))
      | None \<Rightarrow>
          (let newLog = createHabitLog now hId d c n
           in (data\<lparr>logs := logs data @ [newLog]\<rparr>, newLog)))"

section \<open>DataService: the streak engine\<close>

text \<open>
  The body of the \<open>while (true)\<close> loop of \<open>getCurrentStreak\<close>. \<open>logs\<close> are the
  completed logs of the habit, \<open>currentDate\<close> the day looked at, \<open>streak\<close> the counter.
  The loop need not end, so it is a partial function: \<open>None\<close> is a walk that does not
  return.
\<close>

partial_function (option) streakLoop :: "Habit \<Rightarrow> HabitLog list \<Rightarrow> int \<Rightarrow> nat \<Rightarrow> nat option" where
  "streakLoop habit ls currentDate streak =
     (let dateStr = formatDate currentDate;
          log = find (\<lambda>l. date l = dateStr) ls
      in if (case log of Some l \<Rightarrow> completed l | None \<Rightarrow> False) then
           (if streak + 1 > 3650 then Some (streak + 1)
            else streakLoop habit ls (currentDate - 1) (streak + 1))
         else if frequency habit = Daily then Some streak
         else (case customDays habit of
                 Some cd \<Rightarrow>
                   if getDay currentDate \<in> set cd then Some streak
                   else if streak > 3650 then Some streak
                   else streakLoop habit ls (currentDate - 1) streak
               | None \<Rightarrow> Some streak))"

definition getCurrentStreak :: "HabitData \<Rightarrow> int \<Rightarrow> string \<Rightarrow> nat option" where
  "getCurrentStreak data today hId =
     (let ls = filter completed (getLogs data (Some hId) None None) in
      if length ls = 0 then Some 0
      else case getHabit data hId of
             None \<Rightarrow> Some 0
           | Some habit \<Rightarrow>
               (let todayLog = find (\<lambda>l. date l = formatDate today) ls;
                    currentDate = (if todayLog = None then today - 1 else today)
                in streakLoop habit ls currentDate 0))"

text \<open>The \<open>for\<close> loop of \<open>getLongestStreak\<close> over the logs sorted by date, earliest first.\<close>

fun longestLoop :: "HabitLog list \<Rightarrow> nat \<Rightarrow> nat \<Rightarrow> nat" where
  "longestLoop (prevLog # currLog # rest) currentStreak longestStreak =
     (let diffDays = (getTime (date currLog) - getTime (date prevLog)) div (1000 * 60 * 60 * 24)
      in if diffDays = 1
         then longestLoop (currLog # rest) (currentStreak + 1) (max longestStreak (currentStreak + 1))
         else longestLoop (currLog # rest) 1 longestStreak)"
| "longestLoop _ currentStreak longestStreak = longestStreak"

definition getLongestStreak :: "HabitData \<Rightarrow> string \<Rightarrow> nat" where
  "getLongestStreak data hId =
     (let ls = sort_key date (filter completed (getLogs data (Some hId) None None)) in
      if length ls = 0 then 0 else longestLoop ls 1 1)"

section \<open>DataService: freeze days\<close>

definition isFrozen :: "HabitData \<Rightarrow> int \<Rightarrow> bool" where
  "isFrozen data d = isFrozenDate d (freezeDays data)"

definition addFreezeDay :: "HabitData \<Rightarrow> int \<Rightarrow> string option \<Rightarrow> HabitData \<times> FreezeDay option" where
  "addFreezeDay data d r =
     (if isFrozen data d then (data, None)
      else (let freezeDay = createFreezeDay d r
            in (data\<lparr>freezeDays := freezeDays data @ [freezeDay]\<rparr>, Some freezeDay)))"

text \<open>The loop of \<open>getCurrentStreakWithFreeze\<close>; a frozen day goes on without the cap test.\<close>

partial_function (option) freezeLoop ::
  "HabitData \<Rightarrow> Habit \<Rightarrow> HabitLog list \<Rightarrow> int \<Rightarrow> nat \<Rightarrow> nat option" where
  "freezeLoop data habit ls currentDate streak =
     (let dateStr = formatDate currentDate;
          log = find (\<lambda>l. date l = dateStr) ls;
          frozen = isFrozen data dateStr
      in if frozen then freezeLoop data habit ls (currentDate - 1) streak
         else if (case log of Some l \<Rightarrow> completed l | None \<Rightarrow> False) then
           (if streak + 1 > 3650 then Some (streak + 1)
            else freezeLoop data habit ls (currentDate - 1) (streak + 1))
         else if frequency habit = Daily then Some streak
         else (case customDays habit of
                 Some cd \<Rightarrow>
                   if getDay currentDate \<in> set cd then Some streak
                   else if streak > 3650 then Some streak
                   else freezeLoop data habit ls (currentDate - 1) streak
               | None \<Rightarrow> Some streak))"

definition getCurrentStreakWithFreeze :: "HabitData \<Rightarrow> int \<Rightarrow> string \<Rightarrow> nat option" where
  "getCurrentStreakWithFreeze data today hId =
     (let ls = filter completed (getLogs data (Some hId) None None) in
      if length ls = 0 then Some 0
      else case getHabit data hId of
             None \<Rightarrow> Some 0
           | Some habit \<Rightarrow>
               (let todayStr = formatDate today;
                    todayLog = find (\<lambda>l. date l = todayStr) ls;
                    todayFrozen = isFrozen data todayStr;
                    currentDate = (if todayLog = None \<and> \<not> todayFrozen then today - 1 else today)
                in freezeLoop data habit ls currentDate 0))"

section \<open>DataService: badges\<close>

definition hasBadge :: "HabitData \<Rightarrow> string \<Rightarrow> BadgeType \<Rightarrow> bool" where
  "hasBadge data hId t = list_ex (\<lambda>b. b_habitId b = hId \<and> b_type b = t) (badges data)"

text \<open>\<open>awardBadge\<close>; \<open>newId\<close> is what \<open>generateId()\<close> gives and \<open>now\<close> the time stamp.\<close>

definition awardBadge :: "HabitData \<Rightarrow> string \<Rightarrow> string \<Rightarrow> string \<Rightarrow> BadgeType \<Rightarrow> HabitData \<times> Badge option" where
  "awardBadge data newId now hId t =
     (if hasBadge data hId t then (data, None)
      else (let badge = createBadge newId now hId t
            in (data\<lparr>badges := badges data @ [badge]\<rparr>, Some badge)))"

text \<open>
  The \<open>for\<close> loop of \<open>checkAndAwardBadges\<close> over the milestones; \<open>gen t\<close> is the
  identifier and the time stamp the environment gives to the badge of type \<open>t\<close>.
\<close>

fun awardLoop ::
  "(BadgeType \<Rightarrow> string \<times> string) \<Rightarrow> string \<Rightarrow> nat \<Rightarrow> Milestone list \<Rightarrow> HabitData \<Rightarrow> Badge list
   \<Rightarrow> HabitData \<times> Badge list" where
  "awardLoop gen hId streak [] data newBadges = (data, newBadges)"
| "awardLoop gen hId streak (milestone # ms) data newBadges =
     (if streak \<ge> m_days milestone \<and> \<not> hasBadge data hId (m_type milestone) then
        (case awardBadge data (fst (gen (m_type milestone))) (snd (gen (m_type milestone)))
                hId (m_type milestone) of
           (data', Some badge) \<Rightarrow> awardLoop gen hId streak ms data' (newBadges @ [badge])
         | (data', None) \<Rightarrow> awardLoop gen hId streak ms data' newBadges)
      else awardLoop gen hId streak ms data newBadges)"

text \<open>
  \<open>checkAndAwardBadges(habitId)\<close>: the streak is the one of \<open>getCurrentStreak\<close>, whose
  call of \<open>getLogs\<close> leaves the snapshot \<open>getLogs_snapshot\<close>.
\<close>

definition checkAndAwardBadges ::
  "HabitData \<Rightarrow> int \<Rightarrow> (BadgeType \<Rightarrow> string \<times> string) \<Rightarrow> string \<Rightarrow> (HabitData \<times> Badge list) option" where
  "checkAndAwardBadges data today gen hId =
     (case getCurrentStreak data today hId of
        None \<Rightarrow> None
      | Some streak \<Rightarrow>
          Some (awardLoop gen hId streak BADGE_MILESTONES
                  (getLogs_snapshot data (Some hId) None None) []))"

section \<open>DataService: import\<close>

text \<open>
  \<open>importData\<close> stores the object that the text denotes: the cast to \<open>HabitData\<close> checks
  nothing. At this boundary a value is a JSON value and the snapshot an object, a list of
  keys with their values, each key once. \<open>JSON.parse\<close> is a parameter: it gives \<open>None\<close>
  where the platform's parser throws. Numbers are kept as integers, which is enough for
  the only test made on them, whether they are zero.

  \<open>DEFAULT_HABIT_DATA\<close> is one object of the module, and it is not frozen. The constructor
  makes \<open>this.data\<close> that very object, and \<open>load()\<close> copies its properties into a new
  object without copying the arrays they hold. So the array that \<open>push\<close> extends
  (\<open>addHabit\<close>, \<open>toggleHabit\<close>, \<open>addCategory\<close>, \<open>addFreezeDay\<close>, \<open>awardBadge\<close>) is the
  array of \<open>DEFAULT_HABIT_DATA\<close> whenever the loaded data did not bring its own, and for a
  service that loaded nothing an assignment to a property of \<open>this.data\<close> is an
  assignment to \<open>DEFAULT_HABIT_DATA\<close>. What the object holds when \<open>importData\<close> runs is
  therefore part of the state, the argument \<open>defaults\<close> below;
  \<open>DEFAULT_HABIT_DATA_declared\<close> is the value the object is declared with.
\<close>

datatype json =
    JNull
  | JBool bool
  | JNumber int
  | JString string
  | JArray "json list"
  | JObject "(string \<times> json) list"

type_synonym jsobject = "(string \<times> json) list"

definition DEFAULT_HABIT_DATA_declared :: jsobject where
  "DEFAULT_HABIT_DATA_declared =
     [(''habits'', JArray []), (''logs'', JArray []), (''categories'', JArray []),
      (''freezeDays'', JArray []), (''badges'', JArray []), (''version'', JNumber 2)]"

text \<open>A property read \<open>v.k\<close>, for the keys read here (\<open>habits\<close> and \<open>logs\<close>, which
  no boolean, number, string or array has): it throws a TypeError on \<open>null\<close>, and is
  \<open>undefined\<close> on a key the value does not have.\<close>

datatype js_error = SyntaxError | TypeError

fun getProp :: "json \<Rightarrow> string \<Rightarrow> js_error + json option" where
  "getProp JNull k = Inl TypeError"
| "getProp (JObject kvs) k = Inr (map_of kvs k)"
| "getProp _ k = Inr None"

text \<open>Truthiness of a value, \<open>None\<close> being \<open>undefined\<close>.\<close>

fun truthy :: "json option \<Rightarrow> bool" where
  "truthy None = False"
| "truthy (Some JNull) = False"
| "truthy (Some (JBool b)) = b"
| "truthy (Some (JNumber n)) = (n \<noteq> 0)"
| "truthy (Some (JString s)) = (s \<noteq> [])"
| "truthy (Some (JArray _)) = True"
| "truthy (Some (JObject _)) = True"

text \<open>The own properties that a spread \<open>...v\<close> copies, for the values that reach it.\<close>

fun ownProps :: "json \<Rightarrow> jsobject" where
  "ownProps (JObject kvs) = kvs"
| "ownProps _ = []"

text \<open>\<open>{...a, ...b}\<close>: the keys of \<open>a\<close>, each with the value of \<open>b\<close> where \<open>b\<close> has the
  key, then the other keys of \<open>b\<close>.\<close>

fun setProp :: "string \<Rightarrow> json \<Rightarrow> jsobject \<Rightarrow> jsobject" where
  "setProp k v [] = [(k, v)]"
| "setProp k v ((k', v') # kvs) = (if k' = k then (k, v) # kvs else (k', v') # setProp k v kvs)"

definition spread :: "jsobject \<Rightarrow> jsobject \<Rightarrow> jsobject" where
  "spread a b = fold (\<lambda>(k, v) acc. setProp k v acc) b a"

text \<open>
  \<open>importData(jsonString)\<close>. \<open>defaults\<close> is what the object \<open>DEFAULT_HABIT_DATA\<close> holds
  at the call and \<open>data\<close> what \<open>this.data\<close> holds; \<open>saveData s\<close> says whether the host's
  \<open>saveData\<close> resolves on the snapshot \<open>s\<close>. Everything is inside one \<open>try\<close>: a throw of
  the parser, of a property read or of the save gives \<open>false\<close>, the assignment to
  \<open>this.data\<close> made before the save staying. Returns \<open>this.data\<close> and the result.
\<close>

definition importData ::
  "(string \<Rightarrow> json option) \<Rightarrow> (jsobject \<Rightarrow> bool) \<Rightarrow> jsobject \<Rightarrow> jsobject \<Rightarrow> string
   \<Rightarrow> jsobject \<times> bool" where
  "importData JSON_parse saveData defaults data jsonString =
     (case JSON_parse jsonString of
        None \<Rightarrow> (data, False)
      | Some imported \<Rightarrow>
          (case getProp imported ''habits'' of
             Inl e \<Rightarrow> (data, False)
           | Inr h \<Rightarrow>
               if truthy h then
                 (case getProp imported ''logs'' of
                    Inl e \<Rightarrow> (data, False)
                  | Inr l \<Rightarrow>
                      if truthy l
                      then (let data' = spread defaults (ownProps imported)
                            in if saveData data' then (data', True) else (data', False))
                      else (data, False))
               else (data, False)))"

text \<open>The spec's reading of the check: the payload has a collection under the key.\<close>

definition hasCollection :: "json \<Rightarrow> string \<Rightarrow> bool" where
  "hasCollection v k = (case v of
        JObject kvs \<Rightarrow> (case map_of kvs k of Some (JArray xs) \<Rightarrow> True | _ \<Rightarrow> False)
      | _ \<Rightarrow> False)"

section \<open>Derived notions and example snapshots\<close>


text \<open>
  Runs of consecutive calendar dates: \<open>isRun S a n\<close> says that the \<open>n\<close> days from \<open>a\<close> on
  are all in \<open>S\<close>, and \<open>isLongestRun S r\<close> that \<open>r\<close> is the length of a run in \<open>S\<close> and no
  run in \<open>S\<close> is longer.
\<close>

definition isRun :: "int set \<Rightarrow> int \<Rightarrow> nat \<Rightarrow> bool" where
  "isRun S a n \<longleftrightarrow> (\<forall>k<n. a + int k \<in> S)"

definition isLongestRun :: "int set \<Rightarrow> nat \<Rightarrow> bool" where
  "isLongestRun S r \<longleftrightarrow> (\<exists>a. isRun S a r) \<and> (\<forall>a n. isRun S a n \<longrightarrow> n \<le> r)"

text \<open>
  The completed logs of a habit, read off the snapshot itself and not through
  \<open>getLogs\<close>: the logs whose habit id is the given one and that are completed.
\<close>

definition completedLogsOf :: "HabitData \<Rightarrow> string \<Rightarrow> HabitLog list" where
  "completedLogsOf data hId = filter (\<lambda>l. habitId l = hId \<and> completed l) (logs data)"

text \<open>The data model's invariant on logs: at most one log per habit and date.\<close>

definition oneLogPerDay :: "HabitData \<Rightarrow> bool" where
  "oneLogPerDay data \<longleftrightarrow> distinct (map (\<lambda>l. (habitId l, date l)) (logs data))"

text \<open>The (habit, type) pairs of the badges of a snapshot, in order.\<close>

definition badgeKeys :: "HabitData \<Rightarrow> (string \<times> BadgeType) list" where
  "badgeKeys data = map (\<lambda>b. (b_habitId b, b_type b)) (badges data)"

text \<open>
  A state of a streak walk from which no branch of the loop body leaves: the habit is not
  daily, its \<open>customDays\<close> is the empty array, every log is later than the day looked at,
  and the cap is not reached.
\<close>

definition neverDue :: "Habit \<Rightarrow> HabitLog list \<Rightarrow> int \<Rightarrow> nat \<Rightarrow> bool" where
  "neverDue habit ls d s \<longleftrightarrow>
     frequency habit \<noteq> Daily \<and> customDays habit = Some [] \<and> (\<forall>l\<in>set ls. d < date l)
     \<and> s \<le> 3650"


text \<open>\<open>v.k\<close> read in a condition inside the \<open>try\<close> block: a throw counts as false.\<close>

definition truthyProp :: "json \<Rightarrow> string \<Rightarrow> bool" where
  "truthyProp v k = (case getProp v k of Inl e \<Rightarrow> False | Inr x \<Rightarrow> truthy x)"

text \<open>Snapshots and payloads used to run the operations on concrete inputs.\<close>

definition example_habit :: "string \<Rightarrow> HabitFrequency \<Rightarrow> nat list option \<Rightarrow> Habit" where
  "example_habit hId f cd =
     \<lparr>h_id = hId, h_name = ''Read'', h_description = None, h_emoji = None, frequency = f,
      customDays = cd, categoryId = None, goalDays = None,
      h_createdAt = ''2023-12-01T08:00:00.000Z'', archived = False, h_order = 1\<rparr>"

definition example_log :: "string \<Rightarrow> int \<Rightarrow> HabitLog" where
  "example_log hId d = createHabitLog ''2024-01-08T08:00:00.000Z'' hId d True None"

definition example_noted :: HabitData where
  "example_noted = DEFAULT_HABIT_DATA
     \<lparr>habits := [example_habit ''h1'' Daily None],
      logs := [(example_log ''h1'' (ymd 2024 1 7))\<lparr>note_l := Some ''ten pages''\<rparr>],
      freezeDays := [createFreezeDay (ymd 2024 1 4) (Some ''Rest day'')]\<rparr>"

text \<open>The daily habit of the spec's examples: done on 1 to 3 and 5 to 7 January 2024,
  with 4 January frozen.\<close>

definition example_gap :: HabitData where
  "example_gap = DEFAULT_HABIT_DATA
     \<lparr>habits := [example_habit ''h1'' Daily None],
      logs := map (example_log ''h1'')
                [ymd 2024 1 1, ymd 2024 1 2, ymd 2024 1 3, ymd 2024 1 5, ymd 2024 1 6,
                 ymd 2024 1 7],
      freezeDays := [createFreezeDay (ymd 2024 1 4) (Some ''Rest day'')]\<rparr>"

text \<open>The same with 8 January done as well: seven completed days around one frozen day.\<close>

definition example_frozen_week :: HabitData where
  "example_frozen_week = DEFAULT_HABIT_DATA
     \<lparr>habits := [example_habit ''h1'' Daily None],
      logs := map (example_log ''h1'')
                [ymd 2024 1 1, ymd 2024 1 2, ymd 2024 1 3, ymd 2024 1 5, ymd 2024 1 6,
                 ymd 2024 1 7, ymd 2024 1 8],
      freezeDays := [createFreezeDay (ymd 2024 1 4) (Some ''Rest day'')]\<rparr>"

text \<open>
  The habit of the spec's example among other logs: on 4 January it has a log that is not
  completed, and another habit has a completed one.
\<close>

definition example_mixed :: HabitData where
  "example_mixed = DEFAULT_HABIT_DATA
     \<lparr>habits := [example_habit ''h1'' Daily None, example_habit ''h2'' Daily None],
      logs := [example_log ''h1'' (ymd 2024 1 1), example_log ''h1'' (ymd 2024 1 2),
               example_log ''h1'' (ymd 2024 1 3),
               createHabitLog ''2024-01-04T08:00:00.000Z'' ''h1'' (ymd 2024 1 4) False None,
               example_log ''h2'' (ymd 2024 1 4),
               example_log ''h1'' (ymd 2024 1 5), example_log ''h1'' (ymd 2024 1 6),
               example_log ''h1'' (ymd 2024 1 7)]\<rparr>"

text \<open>A habit done on each of 1 to 5 January 2024, with two completed logs on 3 January
  (a data file or an imported payload can hold them).\<close>

definition example_duplicate :: HabitData where
  "example_duplicate = DEFAULT_HABIT_DATA
     \<lparr>habits := [example_habit ''h1'' Daily None],
      logs := map (example_log ''h1'')
                [ymd 2024 1 1, ymd 2024 1 2, ymd 2024 1 3, ymd 2024 1 3, ymd 2024 1 4,
                 ymd 2024 1 5]\<rparr>"

text \<open>A habit whose id is the empty string, done on 1 January 2024, and another habit
  done on 2 January.\<close>

definition example_empty_id :: HabitData where
  "example_empty_id = DEFAULT_HABIT_DATA
     \<lparr>habits := [example_habit [] Daily None, example_habit ''h2'' Daily None],
      logs := [example_log [] (ymd 2024 1 1), example_log ''h2'' (ymd 2024 1 2)]\<rparr>"

text \<open>A daily habit done on each of 1 to 7 January 2024.\<close>

definition example_week :: HabitData where
  "example_week = DEFAULT_HABIT_DATA
     \<lparr>habits := [example_habit ''h1'' Daily None],
      logs := map (example_log ''h1'')
                [ymd 2024 1 1, ymd 2024 1 2, ymd 2024 1 3, ymd 2024 1 4, ymd 2024 1 5,
                 ymd 2024 1 6, ymd 2024 1 7]\<rparr>"

text \<open>A weekly habit and a custom habit, both without \<open>customDays\<close>: the weekly one done
  on the Sundays 31 December 2023 and 7 January 2024, the custom one on 5 and 7 January.\<close>

definition example_weekly :: HabitData where
  "example_weekly = DEFAULT_HABIT_DATA
     \<lparr>habits := [example_habit ''h1'' Weekly None, example_habit ''h2'' Custom None],
      logs := [example_log ''h1'' (ymd 2023 12 31), example_log ''h1'' (ymd 2024 1 7),
               example_log ''h2'' (ymd 2024 1 5), example_log ''h2'' (ymd 2024 1 7)]\<rparr>"

text \<open>A custom habit whose \<open>customDays\<close> is the empty array, done on 7 January 2024.\<close>

definition example_custom_empty :: HabitData where
  "example_custom_empty = DEFAULT_HABIT_DATA
     \<lparr>habits := [example_habit ''h1'' Custom (Some [])],
      logs := [example_log ''h1'' (ymd 2024 1 7)]\<rparr>"

definition example_gen :: "BadgeType \<Rightarrow> string \<times> string" where
  "example_gen t = (''lr5x0k2a'', ''2024-01-08T09:30:00.000Z'')"

text \<open>Payloads: one whose \<open>habits\<close> and \<open>logs\<close> are numbers, a snapshot of an older
  version without the newer fields, and one without \<open>habits\<close>.\<close>

definition example_payload :: json where
  "example_payload = JObject [(''habits'', JNumber 1), (''logs'', JNumber 1)]"

definition example_old_payload :: json where
  "example_old_payload =
     JObject [(''habits'', JArray []), (''logs'', JArray []), (''version'', JNumber 1)]"

definition example_no_habits :: json where
  "example_no_habits = JObject [(''logs'', JArray [])]"

text \<open>
  What \<open>DEFAULT_HABIT_DATA\<close> holds in a service that loaded nothing and then froze
  4 January 2024: \<open>addFreezeDay\<close> pushed the freeze day onto the array of the object.
\<close>

definition example_live_defaults :: jsobject where
  "example_live_defaults =
     [(''habits'', JArray []), (''logs'', JArray []), (''categories'', JArray []),
      (''freezeDays'',
         JArray [JObject [(''date'', JString ''2024-01-04''), (''reason'', JString ''Rest day'')]]),
      (''badges'', JArray []), (''version'', JNumber 2)]"

text \<open>A host whose \<open>saveData\<close> resolves, and one whose \<open>saveData\<close> rejects.\<close>

definition example_save_resolves :: "jsobject \<Rightarrow> bool" where
  "example_save_resolves s = True"

definition example_save_rejects :: "jsobject \<Rightarrow> bool" where
  "example_save_rejects s = False"

text \<open>A parser that knows the three texts of these payloads.\<close>

definition example_parse :: "string \<Rightarrow> json option" where
  "example_parse txt =
     (if txt = ''{\"habits\":1,\"logs\":1}'' then Some example_payload
      else if txt = ''{\"habits\":[],\"logs\":[],\"version\":1}'' then Some example_old_payload
      else if txt = ''{\"logs\":[]}'' then Some example_no_habits
      else None)"

section \<open>Evaluation of the examples\<close>

lemma ymd_jan24: "ymd 2024 1 d = 19722 + d"
  by (simp add: ymd_def)

lemma ymd_dec31: "ymd 2023 12 31 = 19722"
  by (simp add: ymd_def)

lemma example_log_sel [simp]:
  "date (example_log h d) = d" "habitId (example_log h d) = h" "completed (example_log h d)"
  by (simp_all add: example_log_def createHabitLog_def)

lemma example_habit_sel [simp]:
  "h_id (example_habit h f cd) = h" "frequency (example_habit h f cd) = f"
  "customDays (example_habit h f cd) = cd"
  by (simp_all add: example_habit_def)

lemmas run_defs = getLogs_def truthyId_def sortDesc_def Let_def DEFAULT_HABIT_DATA_def
  getHabit_def formatDate_def isFrozen_def isFrozenDate_def createFreezeDay_def
  ymd_jan24 ymd_dec31

section \<open>Properties of the log ledger and the freeze-day ledger\<close>



lemma find_Some_pred: "find p xs = Some x \<Longrightarrow> p x"
  by (induction xs) (auto split: if_splits)











lemma isFrozenDate_iff: "isFrozenDate d fz \<longleftrightarrow> d \<in> set (map f_date fz)"
  by (auto simp: isFrozenDate_def list_ex_iff)

text \<open>
  Claim C9. On a date that is already frozen, \<open>addFreezeDay\<close> returns nothing and the
  snapshot is unchanged; and a freeze-day collection with at most one entry per date stays
  so after any call.
\<close>

theorem addFreezeDay_duplicate:
  "(isFrozen data d \<longrightarrow> addFreezeDay data d r = (data, None))
   \<and> (distinct (map f_date (freezeDays data))
        \<longrightarrow> distinct (map f_date (freezeDays (fst (addFreezeDay data d r)))))"
  by (auto simp: addFreezeDay_def isFrozen_def isFrozenDate_iff createFreezeDay_def Let_def)

theorem addFreezeDay_duplicate_witness:
  "isFrozen example_noted (ymd 2024 1 4)
   \<and> addFreezeDay example_noted (ymd 2024 1 4) (Some ''Sick'') = (example_noted, None)
   \<and> distinct (map f_date (freezeDays example_noted))
   \<and> distinct (map f_date (freezeDays (fst (addFreezeDay example_noted (ymd 2024 1 4)
                                               (Some ''Sick'')))))"
proof -
  have f: "isFrozen example_noted (ymd 2024 1 4)"
    by (simp add: isFrozen_def isFrozenDate_def example_noted_def createFreezeDay_def)
  have d: "distinct (map f_date (freezeDays example_noted))"
    by (simp add: example_noted_def)
  show ?thesis
    using f d addFreezeDay_duplicate[of example_noted "ymd 2024 1 4" "Some ''Sick''"]
    by simp
qed

section \<open>Properties of the streak engine\<close>

subsection \<open>Walks that do not return\<close>

lemma find_date_None: "(\<forall>l\<in>set ls. date l \<noteq> d) \<Longrightarrow> find (\<lambda>l. date l = d) ls = None"
  by (induction ls) auto


lemma neverDue_step: "neverDue habit ls d s \<Longrightarrow> neverDue habit ls (d - 1) s"
  by (auto simp: neverDue_def)

lemma neverDue_find: "neverDue habit ls d s \<Longrightarrow> find (\<lambda>l. date l = d) ls = None"
  unfolding neverDue_def by (intro find_date_None) auto

lemma streakLoop_returns_not_neverDue:
  assumes "streakLoop habit ls d s = Some y"
  shows "\<not> neverDue habit ls d s"
proof (rule streakLoop.raw_induct[where P = "\<lambda>h l d s y. \<not> neverDue h l d s", OF _ assms],
    goal_cases)
  case (1 loop h l d s y)
  show ?case
  proof
    assume inv: "neverDue h l d s"
    from 1(2) inv neverDue_find[OF inv] have rec: "loop h l (d - 1) s = Some y"
      by (simp add: neverDue_def formatDate_def Let_def split: if_splits)
    from 1(1)[OF rec] neverDue_step[OF inv] show False by blast
  qed
qed

lemma streakLoop_never: "neverDue habit ls d s \<Longrightarrow> streakLoop habit ls d s = None"
  using streakLoop_returns_not_neverDue[of habit ls d s]
  by (cases "streakLoop habit ls d s") auto

lemma freezeLoop_returns_not_neverDue:
  assumes "freezeLoop data habit ls d s = Some y"
  shows "\<not> neverDue habit ls d s"
proof (rule freezeLoop.raw_induct[where P = "\<lambda>data h l d s y. \<not> neverDue h l d s", OF _ assms],
    goal_cases)
  case (1 loop data h l d s y)
  show ?case
  proof
    assume inv: "neverDue h l d s"
    from 1(2) inv neverDue_find[OF inv] have rec: "loop data h l (d - 1) s = Some y"
      by (simp add: neverDue_def formatDate_def Let_def split: if_splits)
    from 1(1)[OF rec] neverDue_step[OF inv] show False by blast
  qed
qed

lemma freezeLoop_never: "neverDue habit ls d s \<Longrightarrow> freezeLoop data habit ls d s = None"
  using freezeLoop_returns_not_neverDue[of data habit ls d s]
  by (cases "freezeLoop data habit ls d s") auto

text \<open>
  Claim C2 (the code does not do what the claim says). The cap \<open>streak > 3650\<close> bounds the
  counter, not the number of iterations: a day that is neither completed nor due leaves
  the counter as it is. For the custom habit whose \<open>customDays\<close> is the empty array, done
  on 7 January 2024, the walks of \<open>getCurrentStreak\<close> and \<open>getCurrentStreakWithFreeze\<close>
  started on 8 January count that day and then go back day after day without end.
\<close>

theorem streak_walk_unbounded:
  "getCurrentStreak example_custom_empty (ymd 2024 1 8) ''h1'' = None
   \<and> getCurrentStreakWithFreeze example_custom_empty (ymd 2024 1 8) ''h1'' = None"
proof -
  let ?h = "example_habit ''h1'' Custom (Some [])"
  let ?ls = "[example_log ''h1'' 19729]"
  have n: "neverDue ?h ?ls 19728 (Suc 0)"
    by (simp add: neverDue_def)
  have "streakLoop ?h ?ls 19729 0 = None"
    by (subst streakLoop.simps) (simp add: streakLoop_never[OF n] formatDate_def)
  moreover have "freezeLoop example_custom_empty ?h ?ls 19729 0 = None"
    by (subst freezeLoop.simps)
      (simp add: freezeLoop_never[OF n] formatDate_def isFrozen_def isFrozenDate_def
        example_custom_empty_def DEFAULT_HABIT_DATA_def)
  ultimately show ?thesis
    by (simp add: getCurrentStreak_def getCurrentStreakWithFreeze_def example_custom_empty_def
        run_defs)
qed

subsection \<open>Due days in the walk\<close>

text \<open>
  Claim C4 (the code does not do what the claim says). With \<open>customDays\<close> absent the walk
  of \<open>getCurrentStreak\<close> stops at the first day without a completed log, due or not. On
  Monday 8 January 2024 the weekly habit done on the last two Sundays has streak 1: the
  walk stops on Saturday 6 January, a day on which \<open>isHabitDueOnDate\<close> says the habit is
  not due. The custom habit done on 5 and 7 January has streak 1 as well.
\<close>

theorem default_due_days_ignored:
  "getCurrentStreak example_weekly (ymd 2024 1 8) ''h1'' = Some 1
   \<and> getDay (ymd 2024 1 6) = 6
   \<and> \<not> isHabitDueOnDate (example_habit ''h1'' Weekly None) (ymd 2024 1 6)
   \<and> getCurrentStreak example_weekly (ymd 2024 1 8) ''h2'' = Some 1
   \<and> \<not> isHabitDueOnDate (example_habit ''h2'' Custom None) (ymd 2024 1 6)"
proof -
  have "getCurrentStreak example_weekly (ymd 2024 1 8) ''h1'' = Some 1"
    by (simp add: getCurrentStreak_def example_weekly_def run_defs streakLoop.simps)
  moreover have "getCurrentStreak example_weekly (ymd 2024 1 8) ''h2'' = Some 1"
    by (simp add: getCurrentStreak_def example_weekly_def run_defs streakLoop.simps)
  ultimately show ?thesis
    by (simp add: isHabitDueOnDate_def getDay_def ymd_jan24)
qed

subsection \<open>Freeze days and daily habits\<close>








subsection \<open>The longest streak\<close>

lemma diffDays_eq: "(getTime c - getTime p) div 86400000 = c - p"
proof -
  have "getTime c - getTime p = (c - p) * 86400000"
    by (simp add: getTime_def algebra_simps)
  then show ?thesis by simp
qed

lemma longestLoop_ge: "longest \<le> longestLoop ls cur longest"
proof (induction ls cur longest rule: longestLoop.induct)
  case (1 prevLog currLog rest currentStreak longestStreak)
  then show ?case by (auto simp: Let_def diffDays_eq split: if_splits)
qed simp_all

lemma isRun_0: "isRun S a 0"
  by (simp add: isRun_def)

lemma isRun_Suc: "isRun S a (Suc n) \<longleftrightarrow> isRun S a n \<and> a + int n \<in> S"
  by (auto simp: isRun_def less_Suc_eq)

lemma isRun_extend: "isRun S a n \<Longrightarrow> a + int n \<in> S \<Longrightarrow> isRun S a (Suc n)"
  by (auto simp: isRun_def less_Suc_eq)

lemma longestLoop_is_run:
  "date ` set (l # rest) \<subseteq> S \<Longrightarrow> 1 \<le> cur \<Longrightarrow> isRun S (date l - int cur + 1) cur
   \<Longrightarrow> \<exists>a. isRun S a longest \<Longrightarrow> \<exists>a. isRun S a (longestLoop (l # rest) cur longest)"
proof (induction rest arbitrary: l cur longest)
  case Nil
  then show ?case by simp
next
  case (Cons c rs)
  show ?case
  proof (cases "date c - date l = 1")
    case True
    have "date l - int cur + 1 + int cur = date c"
      using True by simp
    moreover have "date c \<in> S"
      using Cons.prems(1) by simp
    ultimately have "isRun S (date l - int cur + 1) (Suc cur)"
      using Cons.prems(3) by (intro isRun_extend) simp_all
    then have run: "isRun S (date c - int (cur + 1) + 1) (cur + 1)"
      using True by (simp add: algebra_simps)
    then have "\<exists>a. isRun S a (max longest (cur + 1))"
      using Cons.prems(4) by (auto simp: max_def)
    with Cons.IH[of c "cur + 1" "max longest (cur + 1)"] run Cons.prems(1) True
    show ?thesis by (simp add: diffDays_eq)
  next
    case False
    have "isRun S (date c - int 1 + 1) 1"
      using Cons.prems(1) by (simp add: isRun_def)
    with Cons.IH[of c 1 longest] Cons.prems False
    show ?thesis by (simp add: diffDays_eq)
  qed
qed

lemma isRun_interval: "isRun {lo..hi} a n \<Longrightarrow> int n \<le> max 0 (hi - lo + 1)"
proof (cases n)
  case 0
  then show ?thesis by simp
next
  case (Suc m)
  assume "isRun {lo..hi} a n"
  with Suc have "a + int 0 \<in> {lo..hi}" "a + int m \<in> {lo..hi}"
    unfolding isRun_def by blast+
  with Suc show ?thesis by simp
qed

lemma isRun_split:
  assumes run: "isRun (I \<union> W) a n" and I: "\<forall>x\<in>I. x \<le> m" and W: "\<forall>x\<in>W. m + 1 < x"
  shows "isRun I a n \<or> isRun W a n"
proof (rule ccontr)
  assume "\<not> (isRun I a n \<or> isRun W a n)"
  then obtain i j where i: "i < n" "a + int i \<notin> I" and j: "j < n" "a + int j \<notin> W"
    unfolding isRun_def by blast
  from run i have iW: "a + int i \<in> W" unfolding isRun_def by blast
  from run j have jI: "a + int j \<in> I" unfolding isRun_def by blast
  from iW W have hi: "m + 1 < a + int i" by blast
  from jI I have lo: "a + int j \<le> m" by blast
  from hi lo have "j < i" by simp
  define k where "k = nat (m + 1 - a)"
  have "a + int k = m + 1" "k < n"
    using hi lo i(1) by (auto simp: k_def)
  with run have "m + 1 \<in> I \<union> W" unfolding isRun_def by metis
  with I W show False by auto
qed

lemma longestLoop_bound:
  "sorted (map date (l # rest)) \<Longrightarrow> distinct (map date (l # rest)) \<Longrightarrow> 1 \<le> cur \<Longrightarrow> cur \<le> longest
   \<Longrightarrow> isRun ({date l - int cur + 1 .. date l} \<union> date ` set rest) a n
   \<Longrightarrow> n \<le> longestLoop (l # rest) cur longest"
proof (induction rest arbitrary: l cur longest)
  case Nil
  from Nil.prems(5) have "isRun {date l - int cur + 1 .. date l} a n" by simp
  from isRun_interval[OF this] Nil.prems(3,4) show ?case by simp
next
  case (Cons c rs)
  have lt: "date l < date c" using Cons.prems(1,2) by (auto simp: less_le)
  have srt: "sorted (map date (c # rs))" "distinct (map date (c # rs))"
    using Cons.prems(1,2) by auto
  show ?case
  proof (cases "date c - date l = 1")
    case True
    have "{date l - int cur + 1 .. date l} \<union> date ` set (c # rs)
        = {date c - int (cur + 1) + 1 .. date c} \<union> date ` set rs"
      using True Cons.prems(3) by auto
    with Cons.prems(5) have "isRun ({date c - int (cur + 1) + 1 .. date c} \<union> date ` set rs) a n"
      by simp
    from Cons.IH[OF srt _ _ this, of "max longest (cur + 1)"] True
    show ?thesis by (simp add: diffDays_eq)
  next
    case False
    let ?I = "{date l - int cur + 1 .. date l}"
    let ?W = "date ` set (c # rs)"
    have W: "\<forall>x\<in>?W. date l + 1 < x"
      using False lt Cons.prems(1) by auto
    have "isRun ?I a n \<or> isRun ?W a n"
      using Cons.prems(5) W by (intro isRun_split[where m = "date l"]) auto
    then show ?thesis
    proof
      assume "isRun ?I a n"
      from isRun_interval[OF this] Cons.prems(3,4) have "n \<le> longest" by simp
      also have "\<dots> \<le> longestLoop (c # rs) 1 longest" by (rule longestLoop_ge)
      finally show ?thesis using False by (simp add: diffDays_eq)
    next
      assume "isRun ?W a n"
      then have "isRun ({date c - int 1 + 1 .. date c} \<union> date ` set rs) a n" by simp
      from Cons.IH[OF srt _ _ this, of longest] Cons.prems(3,4) False
      show ?thesis by (simp add: diffDays_eq)
    qed
  qed
qed

lemma longestLoop_longest_run:
  assumes "sorted (map date ls)" "distinct (map date ls)" "ls \<noteq> []"
  shows "isLongestRun (date ` set ls) (longestLoop ls 1 1)"
proof -
  from assms(3) obtain l rest where ls: "ls = l # rest" by (cases ls) auto
  have one: "isRun (date ` set ls) (date l - int 1 + 1) 1"
    by (simp add: isRun_def ls)
  then have "\<exists>a. isRun (date ` set ls) a 1" by blast
  with one have ex: "\<exists>a. isRun (date ` set ls) a (longestLoop ls 1 1)"
    unfolding ls by (intro longestLoop_is_run) auto
  have "n \<le> longestLoop ls 1 1" if "isRun (date ` set ls) a n" for a n
  proof -
    from that have "isRun ({date l - int 1 + 1 .. date l} \<union> date ` set rest) a n"
      by (simp add: ls)
    from longestLoop_bound[OF assms(1,2)[unfolded ls] _ _ this] show ?thesis
      by (simp add: ls)
  qed
  with ex show ?thesis unfolding isLongestRun_def by blast
qed

lemma distinct_map_insort_key:
  "distinct (map f (insort_key g x xs)) = (f x \<notin> f ` set xs \<and> distinct (map f xs))"
  by (induction xs) (auto simp: set_insort_key)

lemma distinct_map_sort_key: "distinct (map f (sort_key g xs)) = distinct (map f xs)"
  by (induction xs) (simp_all add: distinct_map_insort_key)

lemma completed_getLogs:
  "hId \<noteq> [] \<Longrightarrow>
   filter completed (getLogs data (Some hId) None None)
     = sort_key (\<lambda>l. - date l) (completedLogsOf data hId)"
  by (simp add: getLogs_def truthyId_def sortDesc_def completedLogsOf_def filter_sort
        conj_commute)

text \<open>The ledger's own operations keep one log per habit and date.\<close>

lemma map_key_updateFirst:
  "(\<And>x. p x \<Longrightarrow> f x = f y) \<Longrightarrow> map f (updateFirst p (\<lambda>_. y) xs) = map f xs"
  by (induction xs) auto

lemma find_None_key:
  "find p xs = None \<Longrightarrow> (\<And>x. f x = k \<Longrightarrow> p x) \<Longrightarrow> k \<notin> set (map f xs)"
  by (induction xs) (auto split: if_splits)

lemma toggleHabit_oneLogPerDay:
  assumes "oneLogPerDay data"
  shows "oneLogPerDay (fst (toggleHabit data today now hId d))"
proof -
  let ?key = "\<lambda>l. (habitId l, date l)"
  define t where "t = (case d of Some x \<Rightarrow> x | None \<Rightarrow> formatDate today)"
  let ?p = "\<lambda>l. habitId l = hId \<and> date l = t"
  show ?thesis
  proof (cases "getLog data hId t")
    case None
    then have "find ?p (logs data) = None" by (simp add: getLog_def)
    then have "(hId, t) \<notin> set (map ?key (logs data))"
      by (rule find_None_key) auto
    with assms None show ?thesis
      by (simp add: toggleHabit_def t_def[symmetric] oneLogPerDay_def createHabitLog_def Let_def)
  next
    case (Some l)
    then have k: "habitId l = hId" "date l = t"
      unfolding getLog_def by (auto dest: find_Some_pred)
    let ?l' = "l\<lparr>completed := \<not> completed l,
                   completedAt := (if \<not> completed l then Some now else None)\<rparr>"
    have "map ?key (updateFirst ?p (\<lambda>_. ?l') (logs data)) = map ?key (logs data)"
      by (rule map_key_updateFirst) (simp add: k)
    with assms Some show ?thesis
      by (simp add: toggleHabit_def t_def[symmetric] oneLogPerDay_def Let_def)
  qed
qed

lemma setHabitCompletion_oneLogPerDay:
  assumes "oneLogPerDay data"
  shows "oneLogPerDay (fst (setHabitCompletion data now hId t c n))"
proof -
  let ?key = "\<lambda>l. (habitId l, date l)"
  let ?p = "\<lambda>l. habitId l = hId \<and> date l = t"
  show ?thesis
  proof (cases "getLog data hId t")
    case None
    then have "find ?p (logs data) = None" by (simp add: getLog_def)
    then have "(hId, t) \<notin> set (map ?key (logs data))"
      by (rule find_None_key) auto
    with assms None show ?thesis
      by (simp add: setHabitCompletion_def oneLogPerDay_def createHabitLog_def Let_def)
  next
    case (Some l)
    then have k: "habitId l = hId" "date l = t"
      unfolding getLog_def by (auto dest: find_Some_pred)
    let ?l' = "l\<lparr>completed := c, note_l := n,
                   completedAt := (if c then Some now else None)\<rparr>"
    have "map ?key (updateFirst ?p (\<lambda>_. ?l') (logs data)) = map ?key (logs data)"
      by (rule map_key_updateFirst) (simp add: k)
    with assms Some show ?thesis
      by (simp add: setHabitCompletion_def oneLogPerDay_def Let_def)
  qed
qed

lemma oneLogPerDay_completedLogsOf:
  assumes "oneLogPerDay data"
  shows "distinct (map date (completedLogsOf data hId))"
proof -
  have "distinct (map (\<lambda>l. (habitId l, date l)) xs)
        \<Longrightarrow> distinct (map date (filter (\<lambda>l. habitId l = hId \<and> completed l) xs))"
    for xs :: "HabitLog list"
    by (induction xs) (auto simp: image_iff)
  from this[of "logs data"] assms show ?thesis
    by (simp add: oneLogPerDay_def completedLogsOf_def)
qed

text \<open>
  Claim C6, as amended. For a habit id other than the empty string, when the completed
  logs of the habit have pairwise distinct dates, \<open>getLongestStreak\<close> is the length of
  the longest run of consecutive calendar dates among them; it is the same whatever the
  habits and the freeze days of the snapshot are; and for the habit done on 1 to 3 and 5
  to 7 January 2024 it is 3.
\<close>

theorem getLongestStreak_longest_run:
  "(hId \<noteq> [] \<and> distinct (map date (completedLogsOf data hId))
      \<longrightarrow> isLongestRun (date ` set (completedLogsOf data hId)) (getLongestStreak data hId))
   \<and> getLongestStreak (data\<lparr>habits := hs, freezeDays := fz\<rparr>) hId = getLongestStreak data hId
   \<and> getLongestStreak example_gap ''h1'' = 3"
proof -
  let ?own = "completedLogsOf data hId"
  have "isLongestRun (date ` set ?own) (getLongestStreak data hId)"
    if ne: "hId \<noteq> []" and d: "distinct (map date ?own)"
  proof -
    let ?cs = "filter completed (getLogs data (Some hId) None None)"
    have cs: "?cs = sort_key (\<lambda>l. - date l) ?own"
      using ne by (rule completed_getLogs)
    have set_cs: "set ?cs = set ?own" and dist_cs: "distinct (map date ?cs)"
      using d by (simp_all add: cs distinct_map_sort_key)
    show ?thesis
    proof (cases "?cs = []")
      case True
      with set_cs have "set ?own = {}" by simp
      with True show ?thesis
        by (auto simp: getLongestStreak_def isLongestRun_def isRun_def)
    next
      case False
      let ?ls = "sort_key date ?cs"
      from False have nel: "?ls \<noteq> []" by (metis set_sort set_empty)
      have "isLongestRun (date ` set ?ls) (longestLoop ?ls 1 1)"
        using dist_cs nel by (intro longestLoop_longest_run) (simp_all add: distinct_map_sort_key)
      moreover have "set ?ls = set ?own" using set_cs by simp
      ultimately show ?thesis using nel by (simp add: getLongestStreak_def Let_def)
    qed
  qed
  moreover have "getLongestStreak (data\<lparr>habits := hs, freezeDays := fz\<rparr>) hId
      = getLongestStreak data hId"
    by (simp add: getLongestStreak_def getLogs_def)
  moreover have "getLongestStreak example_gap ''h1'' = 3"
    by (simp add: getLongestStreak_def example_gap_def run_defs getTime_def)
  ultimately show ?thesis by blast
qed

text \<open>Among the logs of another habit and a log that is not completed, the result is the
  longest run of the habit's own completed logs.\<close>

theorem getLongestStreak_longest_run_witness:
  "''h1'' \<noteq> [] \<and> distinct (map date (completedLogsOf example_mixed ''h1''))
   \<and> isLongestRun (date ` set (completedLogsOf example_mixed ''h1''))
        (getLongestStreak example_mixed ''h1'')
   \<and> getLongestStreak example_mixed ''h1'' = 3"
proof -
  have d: "distinct (map date (completedLogsOf example_mixed ''h1''))"
    by (simp add: completedLogsOf_def example_mixed_def createHabitLog_def run_defs)
  have v: "getLongestStreak example_mixed ''h1'' = 3"
    by (simp add: getLongestStreak_def example_mixed_def createHabitLog_def run_defs
          getTime_def)
  from getLongestStreak_longest_run[of "''h1''" example_mixed "[]" "[]"] d
  have "isLongestRun (date ` set (completedLogsOf example_mixed ''h1''))
        (getLongestStreak example_mixed ''h1'')"
    by simp
  with d v show ?thesis by simp
qed

text \<open>
  Claim C6 as stated fails on two kinds of snapshot. With two completed logs on one date
  the counter is reset inside a run: the habit done on each of 1 to 5 January has the
  result 3. And an empty habit id passes no filter in \<open>getLogs\<close>, so that the logs of
  every habit are scanned: the habit done on 1 January only has the result 2.
\<close>

theorem getLongestStreak_not_longest_run:
  "getLongestStreak example_duplicate ''h1'' = 3
   \<and> isRun (date ` set (completedLogsOf example_duplicate ''h1'')) (ymd 2024 1 1) 5
   \<and> \<not> isLongestRun (date ` set (completedLogsOf example_duplicate ''h1''))
          (getLongestStreak example_duplicate ''h1'')
   \<and> getLongestStreak example_empty_id [] = 2
   \<and> date ` set (completedLogsOf example_empty_id []) = {ymd 2024 1 1}
   \<and> \<not> isLongestRun (date ` set (completedLogsOf example_empty_id []))
          (getLongestStreak example_empty_id [])"
proof -
  let ?S = "date ` set (completedLogsOf example_duplicate ''h1'')"
  let ?T = "date ` set (completedLogsOf example_empty_id [])"
  have v: "getLongestStreak example_duplicate ''h1'' = 3"
    by (simp add: getLongestStreak_def example_duplicate_def run_defs getTime_def)
  have S: "?S = {19723, 19724, 19725, 19726, 19727}"
    by (auto simp: completedLogsOf_def example_duplicate_def run_defs)
  have r: "isRun ?S (ymd 2024 1 1) 5"
    unfolding S by (simp add: eval_nat_numeral isRun_Suc isRun_0 ymd_jan24)
  have n: "\<not> isLongestRun ?S (getLongestStreak example_duplicate ''h1'')"
  proof
    assume "isLongestRun ?S (getLongestStreak example_duplicate ''h1'')"
    then have "\<forall>a n. isRun ?S a n \<longrightarrow> n \<le> 3"
      by (simp add: isLongestRun_def v)
    with r have "(5::nat) \<le> 3" by blast
    then show False by simp
  qed
  have w: "getLongestStreak example_empty_id [] = 2"
    by (simp add: getLongestStreak_def example_empty_id_def run_defs getTime_def)
  have s: "?T = {ymd 2024 1 1}"
    by (simp add: completedLogsOf_def example_empty_id_def run_defs)
  have "\<not> isRun {ymd 2024 1 1} a 2" for a
    by (simp add: eval_nat_numeral isRun_Suc isRun_0)
  with w s have m: "\<not> isLongestRun ?T (getLongestStreak example_empty_id [])"
    by (simp add: isLongestRun_def)
  from v r n w s m show ?thesis by blast
qed

section \<open>Properties of the badge engine\<close>

lemma sortDesc_idem: "sortDesc (sortDesc ls) = sortDesc ls"
  unfolding sortDesc_def by (rule sort_key_id_if_sorted) (rule sorted_sort_key)

lemma getLogs_snapshot_logs:
  "getLogs (getLogs_snapshot data (Some hId) None None) (Some hId) None None
     = getLogs data (Some hId) None None"
  by (simp add: getLogs_snapshot_def getLogs_def sortDesc_idem Let_def)

lemma getLogs_snapshot_idem:
  "getLogs_snapshot (getLogs_snapshot data hId s e) hId s e = getLogs_snapshot data hId s e"
  by (simp add: getLogs_snapshot_def sortDesc_idem)

lemma getCurrentStreak_cong:
  "getLogs data' (Some hId) None None = getLogs data (Some hId) None None
   \<Longrightarrow> habits data' = habits data
   \<Longrightarrow> getCurrentStreak data' today hId = getCurrentStreak data today hId"
  by (simp add: getCurrentStreak_def getHabit_def Let_def cong: if_cong)

lemma getLogs_badges: "getLogs (data\<lparr>badges := b\<rparr>) h s e = getLogs data h s e"
  by (simp add: getLogs_def)

lemma hasBadge_append:
  "hasBadge (data\<lparr>badges := badges data @ [b]\<rparr>) hId t
     = (hasBadge data hId t \<or> (b_habitId b = hId \<and> b_type b = t))"
  by (auto simp: hasBadge_def)

lemma awardLoop_effect:
  "awardLoop gen hId streak ms data nb = (data', nb')
   \<Longrightarrow> (\<exists>bs. data' = data\<lparr>badges := bs\<rparr>)
     \<and> (\<forall>m\<in>set ms. m_days m \<le> streak \<longrightarrow> hasBadge data' hId (m_type m))
     \<and> (\<forall>t. hasBadge data hId t \<longrightarrow> hasBadge data' hId t)"
proof (induction ms arbitrary: data nb)
  case Nil
  then have "data' = data\<lparr>badges := badges data\<rparr>" by simp
  then have "\<exists>bs. data' = data\<lparr>badges := bs\<rparr>" by (rule exI)
  with Nil show ?case by simp
next
  case (Cons m ms)
  show ?case
  proof (cases "m_days m \<le> streak \<and> \<not> hasBadge data hId (m_type m)")
    case True
    let ?b = "createBadge (fst (gen (m_type m))) (snd (gen (m_type m))) hId (m_type m)"
    let ?d = "data\<lparr>badges := badges data @ [?b]\<rparr>"
    from True Cons.prems have "awardLoop gen hId streak ms ?d (nb @ [?b]) = (data', nb')"
      by (simp add: awardBadge_def Let_def)
    from Cons.IH[OF this] have ih: "\<exists>bs. data' = ?d\<lparr>badges := bs\<rparr>"
      "\<forall>m\<in>set ms. m_days m \<le> streak \<longrightarrow> hasBadge data' hId (m_type m)"
      "\<forall>t. hasBadge ?d hId t \<longrightarrow> hasBadge data' hId t" by blast+
    have "hasBadge ?d hId (m_type m)"
      by (simp add: hasBadge_append createBadge_def)
    with ih(3) have "hasBadge data' hId (m_type m)" by blast
    moreover have "hasBadge data' hId t" if "hasBadge data hId t" for t
      using that ih(3) by (simp add: hasBadge_append)
    moreover have "\<exists>bs. data' = data\<lparr>badges := bs\<rparr>"
      using ih(1) by auto
    ultimately show ?thesis using ih(2) by auto
  next
    case False
    with Cons.prems have "awardLoop gen hId streak ms data nb = (data', nb')" by auto
    from Cons.IH[OF this] False show ?thesis by auto
  qed
qed

lemma awardLoop_nothing:
  "\<forall>m\<in>set ms. m_days m \<le> streak \<longrightarrow> hasBadge data hId (m_type m)
   \<Longrightarrow> awardLoop gen hId streak ms data nb = (data, nb)"
  by (induction ms) auto

lemma hasBadge_iff: "hasBadge data hId t \<longleftrightarrow> (hId, t) \<in> set (badgeKeys data)"
  by (auto simp: hasBadge_def badgeKeys_def list_ex_iff)

lemma awardLoop_distinct:
  "distinct (badgeKeys data) \<Longrightarrow> distinct (badgeKeys (fst (awardLoop gen hId streak ms data nb)))"
proof (induction ms arbitrary: data nb)
  case Nil
  then show ?case by simp
next
  case (Cons m ms)
  show ?case
  proof (cases "m_days m \<le> streak \<and> \<not> hasBadge data hId (m_type m)")
    case True
    let ?b = "createBadge (fst (gen (m_type m))) (snd (gen (m_type m))) hId (m_type m)"
    let ?d = "data\<lparr>badges := badges data @ [?b]\<rparr>"
    have "distinct (badgeKeys ?d)"
      using True Cons.prems by (simp add: badgeKeys_def hasBadge_iff createBadge_def)
    from Cons.IH[OF this] True show ?thesis
      by (simp add: awardBadge_def Let_def)
  next
    case False
    with Cons show ?thesis by auto
  qed
qed

text \<open>
  Claim C7. When \<open>checkAndAwardBadges\<close> has returned, a second call on the snapshot it
  left, at the same day, returns that snapshot and no badge; \<open>awardBadge\<close> on a badge
  that the habit has returns nothing and leaves the snapshot as it is; and a badge
  collection with each (habit, type) pair at most once stays so.
\<close>

theorem checkAndAwardBadges_idempotent:
  assumes "checkAndAwardBadges data today gen hId = Some (data', newBadges)"
  shows "checkAndAwardBadges data' today gen' hId = Some (data', [])
       \<and> (hasBadge snapshot h t \<longrightarrow> awardBadge snapshot newId now h t = (snapshot, None))
       \<and> (distinct (badgeKeys data) \<longrightarrow> distinct (badgeKeys data'))"
proof -
  let ?snap = "getLogs_snapshot data (Some hId) None None"
  from assms obtain streak where
    streak: "getCurrentStreak data today hId = Some streak"
    and loop: "awardLoop gen hId streak BADGE_MILESTONES ?snap [] = (data', newBadges)"
    by (auto simp: checkAndAwardBadges_def split: option.splits)
  from awardLoop_effect[OF loop] obtain bs where eq: "data' = ?snap\<lparr>badges := bs\<rparr>"
    and all: "\<forall>m\<in>set BADGE_MILESTONES. m_days m \<le> streak \<longrightarrow> hasBadge data' hId (m_type m)"
    by blast
  have logs': "getLogs data' (Some hId) None None = getLogs data (Some hId) None None"
    unfolding eq by (simp add: getLogs_badges getLogs_snapshot_logs)
  have habits': "habits data' = habits data"
    unfolding eq by (simp add: getLogs_snapshot_def)
  have streak': "getCurrentStreak data' today hId = Some streak"
    using getCurrentStreak_cong[OF logs' habits'] streak by simp
  have snap': "getLogs_snapshot data' (Some hId) None None = data'"
  proof -
    have "getLogs_snapshot (?snap\<lparr>badges := bs\<rparr>) (Some hId) None None
        = (getLogs_snapshot ?snap (Some hId) None None)\<lparr>badges := bs\<rparr>"
      by (simp add: getLogs_snapshot_def)
    then show ?thesis unfolding eq by (simp only: getLogs_snapshot_idem)
  qed
  have "checkAndAwardBadges data' today gen' hId = Some (data', [])"
    by (simp add: checkAndAwardBadges_def streak' snap' awardLoop_nothing[OF all])
  moreover have "distinct (badgeKeys data')" if "distinct (badgeKeys data)"
  proof -
    have "badgeKeys ?snap = badgeKeys data"
      by (simp add: badgeKeys_def getLogs_snapshot_def)
    with that awardLoop_distinct[of ?snap gen hId streak BADGE_MILESTONES "[]"] loop
    show ?thesis by simp
  qed
  ultimately show ?thesis by (simp add: awardBadge_def)
qed

text \<open>The spec's example: a streak of exactly 7 gives the week badge on the first call
  and nothing on the second.\<close>

theorem checkAndAwardBadges_idempotent_witness:
  "checkAndAwardBadges example_week (ymd 2024 1 8) example_gen ''h1''
     = Some (example_week\<lparr>badges := [createBadge ''lr5x0k2a'' ''2024-01-08T09:30:00.000Z'' ''h1'' Week]\<rparr>,
             [createBadge ''lr5x0k2a'' ''2024-01-08T09:30:00.000Z'' ''h1'' Week])
   \<and> checkAndAwardBadges
         (example_week\<lparr>badges := [createBadge ''lr5x0k2a'' ''2024-01-08T09:30:00.000Z'' ''h1'' Week]\<rparr>)
         (ymd 2024 1 8) example_gen ''h1''
     = Some (example_week\<lparr>badges := [createBadge ''lr5x0k2a'' ''2024-01-08T09:30:00.000Z'' ''h1'' Week]\<rparr>, [])"
proof -
  have p: "getCurrentStreak example_week (ymd 2024 1 8) ''h1'' = Some 7"
    by (simp add: getCurrentStreak_def example_week_def run_defs streakLoop.simps)
  have b: "badges example_week = []"
    by (simp add: example_week_def DEFAULT_HABIT_DATA_def)
  have first: "checkAndAwardBadges example_week (ymd 2024 1 8) example_gen ''h1''
     = Some (example_week\<lparr>badges := [createBadge ''lr5x0k2a'' ''2024-01-08T09:30:00.000Z'' ''h1'' Week]\<rparr>,
             [createBadge ''lr5x0k2a'' ''2024-01-08T09:30:00.000Z'' ''h1'' Week])"
    by (simp add: checkAndAwardBadges_def p getLogs_snapshot_def truthyId_def BADGE_MILESTONES_def
        hasBadge_def awardBadge_def example_gen_def b createBadge_def Let_def)
  from checkAndAwardBadges_idempotent[OF first, of example_gen] first show ?thesis by simp
qed

text \<open>
  Claim C1 (the code does not do what the claim says). \<open>checkAndAwardBadges\<close> takes the
  streak of \<open>getCurrentStreak\<close>, which does not skip frozen days. On 9 January 2024, for
  the daily habit done on 1 to 3 and 5 to 8 January with 4 January frozen, the freeze-aware
  streak is 7 and the plain streak is 4, and no badge is awarded.
\<close>

theorem badges_ignore_freeze:
  "getCurrentStreakWithFreeze example_frozen_week (ymd 2024 1 9) ''h1'' = Some 7
   \<and> getCurrentStreak example_frozen_week (ymd 2024 1 9) ''h1'' = Some 4
   \<and> checkAndAwardBadges example_frozen_week (ymd 2024 1 9) example_gen ''h1''
       = Some (example_frozen_week, [])"
proof -
  have f: "getCurrentStreakWithFreeze example_frozen_week (ymd 2024 1 9) ''h1'' = Some 7"
    by (simp add: getCurrentStreakWithFreeze_def example_frozen_week_def run_defs freezeLoop.simps)
  have p: "getCurrentStreak example_frozen_week (ymd 2024 1 9) ''h1'' = Some 4"
    by (simp add: getCurrentStreak_def example_frozen_week_def run_defs streakLoop.simps)
  have "checkAndAwardBadges example_frozen_week (ymd 2024 1 9) example_gen ''h1''
       = Some (example_frozen_week, [])"
    by (simp add: checkAndAwardBadges_def p getLogs_snapshot_def truthyId_def BADGE_MILESTONES_def)
  with f p show ?thesis by simp
qed

section \<open>Properties of the import\<close>

lemma map_of_setProp: "map_of (setProp k v kvs) k' = (if k' = k then Some v else map_of kvs k')"
  by (induction kvs) auto

lemma map_of_fold_setProp:
  "distinct (map fst b) \<Longrightarrow>
   map_of (fold (\<lambda>(k, v) acc. setProp k v acc) b a) k
     = (case map_of b k of Some x \<Rightarrow> Some x | None \<Rightarrow> map_of a k)"
proof (induction b arbitrary: a)
  case Nil
  then show ?case by simp
next
  case (Cons kv b)
  obtain k' v' where kv: "kv = (k', v')" by (cases kv)
  from Cons.prems kv have "map_of b k' = None" and "distinct (map fst b)"
    by (auto simp: map_of_eq_None_iff)
  with Cons.IH[of "setProp k' v' a"] show ?case
    by (simp add: kv map_of_setProp split: option.splits)
qed

lemma map_of_spread:
  "distinct (map fst b) \<Longrightarrow>
   map_of (spread a b) k = (case map_of b k of Some x \<Rightarrow> Some x | None \<Rightarrow> map_of a k)"
  by (simp add: spread_def map_of_fold_setProp)

lemma importData_cases:
  "importData P sv dflt data txt =
     (case P txt of None \<Rightarrow> (data, False)
      | Some v \<Rightarrow> if truthyProp v ''habits'' \<and> truthyProp v ''logs''
                  then (spread dflt (ownProps v), sv (spread dflt (ownProps v)))
                  else (data, False))"
  by (simp add: importData_def truthyProp_def Let_def split: option.splits sum.splits)

text \<open>
  Claim C3, as amended. \<open>importData\<close> leaves the snapshot unchanged and reports failure
  when the text does not parse or the parsed value has no truthy \<open>habits\<close> or no truthy
  \<open>logs\<close> (the property is missing, \<open>null\<close>, \<open>false\<close>, 0 or the empty string, or the value
  itself is \<open>null\<close>); a failure of the parser is a result, never an exception, and a
  payload without \<open>habits\<close> is such a case. Otherwise the parsed value is an object, and
  the snapshot becomes an object that holds every property of the payload; when
  \<open>DEFAULT_HABIT_DATA\<close> still holds the values it was declared with, a key that the
  payload does not have gets its declared default; and when the save resolves, success is
  reported.
\<close>

theorem importData_outcome:
  "((case P txt of None \<Rightarrow> True
     | Some v \<Rightarrow> \<not> truthyProp v ''habits'' \<or> \<not> truthyProp v ''logs'')
      \<longrightarrow> importData P sv dflt data txt = (data, False))
   \<and> (\<forall>v. P txt = Some v \<and> getProp v ''habits'' = Inr None
          \<longrightarrow> importData P sv dflt data txt = (data, False))
   \<and> (\<forall>v. P txt = Some v \<and> truthyProp v ''habits'' \<and> truthyProp v ''logs'' \<longrightarrow>
        (\<exists>kvs. v = JObject kvs
           \<and> (sv (fst (importData P sv dflt data txt)) \<longrightarrow> snd (importData P sv dflt data txt))
           \<and> (distinct (map fst kvs) \<longrightarrow>
                (\<forall>k x. map_of kvs k = Some x
                       \<longrightarrow> map_of (fst (importData P sv dflt data txt)) k = Some x)
                \<and> (dflt = DEFAULT_HABIT_DATA_declared \<longrightarrow>
                     (\<forall>k. map_of kvs k = None
                          \<longrightarrow> map_of (fst (importData P sv dflt data txt)) k
                              = map_of DEFAULT_HABIT_DATA_declared k)))))"
proof -
  have obj: "\<exists>kvs. v = JObject kvs" if "truthyProp v ''habits''" for v
    using that by (cases v) (simp_all add: truthyProp_def)
  have fail: "importData P sv dflt data txt = (data, False)"
    if "case P txt of None \<Rightarrow> True
        | Some v \<Rightarrow> \<not> truthyProp v ''habits'' \<or> \<not> truthyProp v ''logs''"
    using that by (auto simp: importData_cases split: option.splits)
  have missing: "importData P sv dflt data txt = (data, False)"
    if "P txt = Some v" "getProp v ''habits'' = Inr None" for v
    using that by (intro fail) (simp add: truthyProp_def)
  have pass: "\<exists>kvs. v = JObject kvs
           \<and> (sv (fst (importData P sv dflt data txt)) \<longrightarrow> snd (importData P sv dflt data txt))
           \<and> (distinct (map fst kvs) \<longrightarrow>
                (\<forall>k x. map_of kvs k = Some x
                       \<longrightarrow> map_of (fst (importData P sv dflt data txt)) k = Some x)
                \<and> (dflt = DEFAULT_HABIT_DATA_declared \<longrightarrow>
                     (\<forall>k. map_of kvs k = None
                          \<longrightarrow> map_of (fst (importData P sv dflt data txt)) k
                              = map_of DEFAULT_HABIT_DATA_declared k)))"
    if v: "P txt = Some v" "truthyProp v ''habits''" "truthyProp v ''logs''" for v
  proof -
    from obj[OF v(2)] obtain kvs where kvs: "v = JObject kvs" by blast
    with v have r: "importData P sv dflt data txt = (spread dflt kvs, sv (spread dflt kvs))"
      by (simp add: importData_cases)
    from r have f: "fst (importData P sv dflt data txt) = spread dflt kvs"
      and g: "snd (importData P sv dflt data txt) = sv (spread dflt kvs)"
      by simp_all
    show ?thesis
      unfolding f g by (rule exI[of _ kvs]) (auto simp: kvs map_of_spread)
  qed
  from fail missing pass show ?thesis by blast
qed

text \<open>An older snapshot without the newer fields is filled from the declared defaults;
  a payload without \<open>habits\<close> and a text that does not parse leave the snapshot.\<close>

theorem importData_outcome_witness:
  "importData example_parse example_save_resolves DEFAULT_HABIT_DATA_declared
       DEFAULT_HABIT_DATA_declared ''{\"habits\":[],\"logs\":[],\"version\":1}''
     = ([(''habits'', JArray []), (''logs'', JArray []), (''categories'', JArray []),
         (''freezeDays'', JArray []), (''badges'', JArray []), (''version'', JNumber 1)], True)
   \<and> importData example_parse example_save_resolves DEFAULT_HABIT_DATA_declared
         [(''habits'', JArray [JNumber 5])] ''{\"logs\":[]}''
     = ([(''habits'', JArray [JNumber 5])], False)
   \<and> importData example_parse example_save_resolves DEFAULT_HABIT_DATA_declared
         [(''habits'', JArray [JNumber 5])] ''not json''
     = ([(''habits'', JArray [JNumber 5])], False)"
proof -
  let ?old = "''{\"habits\":[],\"logs\":[],\"version\":1}''"
  let ?D = DEFAULT_HABIT_DATA_declared
  let ?r = "importData example_parse example_save_resolves ?D ?D ?old"
  have po: "example_parse ?old = Some example_old_payload"
    and pn: "example_parse ''{\"logs\":[]}'' = Some example_no_habits"
    and pj: "example_parse ''not json'' = None"
    by (simp_all add: example_parse_def)
  have t: "truthyProp example_old_payload ''habits''" "truthyProp example_old_payload ''logs''"
    by (simp_all add: truthyProp_def example_old_payload_def)
  have b: "getProp example_no_habits ''habits'' = Inr None"
    by (simp add: example_no_habits_def)
  from importData_outcome[of example_parse ?old example_save_resolves ?D ?D] po t
  obtain kvs where kvs: "example_old_payload = JObject kvs"
    and ok: "example_save_resolves (fst ?r) \<longrightarrow> snd ?r"
    by blast
  from ok have "snd ?r" by (simp add: example_save_resolves_def)
  moreover have "fst ?r
     = [(''habits'', JArray []), (''logs'', JArray []), (''categories'', JArray []),
         (''freezeDays'', JArray []), (''badges'', JArray []), (''version'', JNumber 1)]"
    by (simp add: importData_cases po truthyProp_def example_old_payload_def spread_def
          DEFAULT_HABIT_DATA_declared_def)
  moreover from b pn
    importData_outcome[of example_parse "''{\"logs\":[]}''" example_save_resolves ?D
      "[(''habits'', JArray [JNumber 5])]"]
  have "importData example_parse example_save_resolves ?D
         [(''habits'', JArray [JNumber 5])] ''{\"logs\":[]}''
     = ([(''habits'', JArray [JNumber 5])], False)"
    by blast
  moreover from pj
    importData_outcome[of example_parse "''not json''" example_save_resolves ?D
      "[(''habits'', JArray [JNumber 5])]"]
  have "importData example_parse example_save_resolves ?D
         [(''habits'', JArray [JNumber 5])] ''not json''
     = ([(''habits'', JArray [JNumber 5])], False)"
    by simp
  ultimately show ?thesis by (simp add: prod_eq_iff)
qed

text \<open>
  Claim C3 as stated fails in three ways. A payload whose \<open>habits\<close> and \<open>logs\<close> are the
  number 1 has neither collection, and yet the import succeeds and replaces the snapshot.
  When the save rejects, a payload with both collections replaces the snapshot and failure
  is reported. And in a service whose \<open>DEFAULT_HABIT_DATA\<close> holds a freeze day, which the
  snapshot is the same object as, a payload without \<open>freezeDays\<close> keeps that freeze day
  instead of the default, the empty collection.
\<close>

theorem importData_counterexamples:
  "importData example_parse example_save_resolves DEFAULT_HABIT_DATA_declared
       DEFAULT_HABIT_DATA_declared ''{\"habits\":1,\"logs\":1}''
     = ([(''habits'', JNumber 1), (''logs'', JNumber 1), (''categories'', JArray []),
         (''freezeDays'', JArray []), (''badges'', JArray []), (''version'', JNumber 2)], True)
   \<and> example_parse ''{\"habits\":1,\"logs\":1}'' = Some example_payload
   \<and> \<not> hasCollection example_payload ''habits'' \<and> \<not> hasCollection example_payload ''logs''
   \<and> importData example_parse example_save_rejects DEFAULT_HABIT_DATA_declared
         DEFAULT_HABIT_DATA_declared ''{\"habits\":[],\"logs\":[],\"version\":1}''
     = ([(''habits'', JArray []), (''logs'', JArray []), (''categories'', JArray []),
         (''freezeDays'', JArray []), (''badges'', JArray []), (''version'', JNumber 1)], False)
   \<and> example_parse ''{\"habits\":[],\"logs\":[],\"version\":1}'' = Some example_old_payload
   \<and> hasCollection example_old_payload ''habits'' \<and> hasCollection example_old_payload ''logs''
   \<and> importData example_parse example_save_resolves example_live_defaults
         example_live_defaults ''{\"habits\":[],\"logs\":[],\"version\":1}''
     = ([(''habits'', JArray []), (''logs'', JArray []), (''categories'', JArray []),
         (''freezeDays'',
            JArray [JObject [(''date'', JString ''2024-01-04''), (''reason'', JString ''Rest day'')]]),
         (''badges'', JArray []), (''version'', JNumber 1)], True)
   \<and> map_of (ownProps example_old_payload) ''freezeDays'' = None
   \<and> map_of DEFAULT_HABIT_DATA_declared ''freezeDays'' = Some (JArray [])"
  by (simp add: importData_def example_parse_def example_payload_def example_old_payload_def
        spread_def DEFAULT_HABIT_DATA_declared_def example_live_defaults_def hasCollection_def
        example_save_resolves_def example_save_rejects_def)

end
